theory Spec2Isabelle
  imports Complex_Main
begin

section \<open>Python values, exceptions and the display surface\<close>

text \<open>
  Values that travel through the two Streamlit front ends (\<^verbatim>\<open>app_local.py\<close>,
  \<^verbatim>\<open>app_agentEngine.py\<close>) are what \<^verbatim>\<open>json.loads\<close> and the Agent Engine SDK hand
  back: \<^verbatim>\<open>None\<close>, booleans, numbers, strings, lists and dictionaries.  A dictionary is an
  association list read with \<open>map_of\<close>.  Text is a list of characters.
\<close>

datatype json =
    JNull
  | JBool bool
  | JInt int
  | JFloat real
  | JStr string
  | JArr "json list"
  | JObj "(string \<times> json) list"

text \<open>
  Exceptions.  \<open>ConnectionError\<close>, \<open>Timeout\<close> and \<open>HTTPError\<close> are the subclasses of
  \<^verbatim>\<open>requests.exceptions.RequestException\<close> that the transport raises; the others are
  ordinary Python exceptions.  \<open>JSONDecodeError\<close> is what a JSON decoder raises on text
  that is not JSON; \<open>ValueError\<close> is a plain \<^verbatim>\<open>ValueError\<close>, which the decoder raises on
  an integer literal longer than the interpreter's digit limit; \<open>RecursionError\<close> is what it
  raises on text nested deeper than the interpreter's stack.  \<open>JSONDecodeError\<close>,
  \<open>ValueError\<close> and \<open>UnicodeDecodeError\<close> are the instances of \<^verbatim>\<open>ValueError\<close>.
\<close>

datatype exn =
    ConnectionError string
  | Timeout string
  | HTTPError int
  | TypeError
  | KeyError
  | UnicodeDecodeError
  | JSONDecodeError
  | ValueError
  | RecursionError
  | OtherException string

fun is_RequestException :: "exn \<Rightarrow> bool" where
  "is_RequestException (ConnectionError m) = True"
| "is_RequestException (Timeout m) = True"
| "is_RequestException (HTTPError s) = True"
| "is_RequestException TypeError = False"
| "is_RequestException KeyError = False"
| "is_RequestException UnicodeDecodeError = False"
| "is_RequestException JSONDecodeError = False"
| "is_RequestException ValueError = False"
| "is_RequestException RecursionError = False"
| "is_RequestException (OtherException m) = False"

fun is_ValueError :: "exn \<Rightarrow> bool" where
  "is_ValueError UnicodeDecodeError = True"
| "is_ValueError JSONDecodeError = True"
| "is_ValueError ValueError = True"
| "is_ValueError e = False"

datatype 'a outcome = Raised exn | Returned 'a

text \<open>
  Calls on the display surface, in the order they are made.  The argument of a message
  call is the f-string of the source, kept as its pieces: literal text, an interpolated
  string, an interpolated number, an interpolated exception.
\<close>

datatype piece = Lit string | Str string | Num int | Val json | Exc exn

datatype ui_call =
    St_error "piece list"
  | St_warning "piece list"
  | St_info "piece list"
  | St_success "piece list"
  | St_chat_message string
  | St_write json

subsection \<open>Python operators on values\<close>

fun truthy :: "json \<Rightarrow> bool" where
  "truthy JNull = False"
| "truthy (JBool b) = b"
| "truthy (JInt i) = (i \<noteq> 0)"
| "truthy (JFloat r) = (r \<noteq> 0)"
| "truthy (JStr s) = (s \<noteq> [])"
| "truthy (JArr xs) = (xs \<noteq> [])"
| "truthy (JObj kvs) = (kvs \<noteq> [])"

fun is_dict :: "json \<Rightarrow> bool" where
  "is_dict (JObj kvs) = True"
| "is_dict v = False"

fun is_list :: "json \<Rightarrow> bool" where
  "is_list (JArr xs) = True"
| "is_list v = False"

fun is_str :: "json \<Rightarrow> bool" where
  "is_str (JStr s) = True"
| "is_str v = False"

text \<open>The entries of a dictionary and the elements of a list (empty for other values).\<close>

fun items :: "json \<Rightarrow> (string \<times> json) list" where
  "items (JObj kvs) = kvs"
| "items v = []"

fun elems :: "json \<Rightarrow> json list" where
  "elems (JArr xs) = xs"
| "elems v = []"

text \<open>\<^verbatim>\<open>d.get(key, default)\<close> on a dictionary.\<close>

definition dict_get :: "(string \<times> json) list \<Rightarrow> string \<Rightarrow> json \<Rightarrow> json" where
  "dict_get d k dflt = (case map_of d k of None \<Rightarrow> dflt | Some v \<Rightarrow> v)"

text \<open>\<^verbatim>\<open>key in d\<close> on a dictionary.\<close>

definition dict_has :: "(string \<times> json) list \<Rightarrow> string \<Rightarrow> bool" where
  "dict_has d k = (map_of d k \<noteq> None)"

text \<open>
  The dynamically typed operators the code applies to decoded values: \<^verbatim>\<open>key in v\<close>,
  \<^verbatim>\<open>v[key]\<close> with a string key, and iteration \<^verbatim>\<open>for x in v\<close>.  Each raises
  \<^verbatim>\<open>TypeError\<close> on the values Python refuses.
\<close>

fun is_substring :: "string \<Rightarrow> string \<Rightarrow> bool" where
  "is_substring p [] = (p = [])"
| "is_substring p (c # cs) = (take (length p) (c # cs) = p \<or> is_substring p cs)"

fun contains :: "json \<Rightarrow> string \<Rightarrow> exn + bool" where
  "contains (JObj kvs) k = Inr (dict_has kvs k)"
| "contains (JArr xs) k = Inr (JStr k \<in> set xs)"
| "contains (JStr s) k = Inr (is_substring k s)"
| "contains v k = Inl TypeError"

fun getitem :: "json \<Rightarrow> string \<Rightarrow> exn + json" where
  "getitem (JObj kvs) k = (case map_of kvs k of None \<Rightarrow> Inl KeyError | Some v \<Rightarrow> Inr v)"
| "getitem v k = Inl TypeError"

fun iterate :: "json \<Rightarrow> exn + json list" where
  "iterate (JArr xs) = Inr xs"
| "iterate (JObj kvs) = Inr (map (\<lambda>kv. JStr (fst kv)) kvs)"
| "iterate (JStr s) = Inr (map (\<lambda>c. JStr [c]) s)"
| "iterate v = Inl TypeError"

text \<open>
  \<^verbatim>\<open>str.isspace\<close> on one character and \<^verbatim>\<open>str.strip()\<close>: tab, line feed, vertical tab,
  form feed, carriage return, the four separators 0x1C..0x1F, space, and in the Latin-1 range
  next line (0x85) and no-break space (0xA0).
\<close>

definition isspace :: "char \<Rightarrow> bool" where
  "isspace c = (c \<in> set [CHR 0x09, CHR 0x0A, CHR 0x0B, CHR 0x0C, CHR 0x0D,
                           CHR 0x1C, CHR 0x1D, CHR 0x1E, CHR 0x1F, CHR 0x20,
                           CHR 0x85, CHR 0xA0])"

definition strip :: "string \<Rightarrow> string" where
  "strip s = rev (dropWhile isspace (rev (dropWhile isspace s)))"

text \<open>\<^verbatim>\<open>s.startswith(p)\<close>.\<close>

definition startswith :: "string \<Rightarrow> string \<Rightarrow> bool" where
  "startswith s p = (take (length p) s = p)"

section \<open>The local REST front end (app\_local.py)\<close>

subsection \<open>The transport\<close>

text \<open>
  A line handed out by \<^verbatim>\<open>response.iter_lines()\<close> is a byte string; \<^verbatim>\<open>line.decode('utf-8')\<close>
  either gives its text or raises \<^verbatim>\<open>UnicodeDecodeError\<close>.  The empty byte string is
  \<open>Line []\<close>.
\<close>

datatype line = Line string | Undecodable

text \<open>
  A \<^verbatim>\<open>requests.Response\<close> as far as the code reads it: the status code, the headers
  (keyed by lower-case name), the raw body and its decoded text, and for a streamed
  response the lines that \<^verbatim>\<open>iter_lines()\<close> hands out, followed by the exception it raises
  when the connection breaks before the end of the stream.
\<close>

record response =
  resp_status_code :: int
  resp_headers :: "string \<rightharpoonup> string"
  resp_content :: string
  resp_text :: string
  resp_iter_lines :: "line list"
  resp_iter_error :: "exn option"

text \<open>
  \<^verbatim>\<open>Response.raise_for_status()\<close> raises \<^verbatim>\<open>HTTPError\<close> for the statuses 400 to 599,
  and \<^verbatim>\<open>Response.ok\<close> is true when it does not raise.
\<close>

definition raise_for_status :: "response \<Rightarrow> exn option" where
  "raise_for_status r =
     (if 400 \<le> resp_status_code r \<and> resp_status_code r < 600
      then Some (HTTPError (resp_status_code r)) else None)"

definition resp_ok :: "response \<Rightarrow> bool" where
  "resp_ok r = (raise_for_status r = None)"

datatype http_method = GET | POST | DELETE

record request =
  req_method :: http_method
  req_url :: string
  req_json :: "json option"

text \<open>
  What the module reads from its surroundings: the configured \<^verbatim>\<open>BASE_URL\<close>, the
  \<^verbatim>\<open>requests\<close> library (a call either raises or returns a response) and the JSON decoder
  behind \<^verbatim>\<open>response.json()\<close> and \<^verbatim>\<open>json.loads\<close>, which returns the decoded value
  (\<open>Inr\<close>) or raises an exception (\<open>Inl\<close>).
\<close>

record env =
  BASE_URL :: string
  requests :: "request \<Rightarrow> response outcome"
  json_loads :: "string \<Rightarrow> exn + json"

subsection \<open>\_parse\_json\_or\_empty\<close>

text \<open>
  The result is \<open>Inr (value, calls)\<close>, or \<open>Inl e\<close> when exception \<open>e\<close> leaves the
  function: \<^verbatim>\<open>except ValueError\<close> catches the instances of \<^verbatim>\<open>ValueError\<close> and lets every
  other exception of the decoder pass.  The literal text of the error message is
  abridged to ASCII.
\<close>

definition parse_json_or_empty ::
  "env \<Rightarrow> response \<Rightarrow> json \<Rightarrow> exn + (json \<times> ui_call list)" where
  "parse_json_or_empty env response on_empty0 =
     (let on_empty = (if on_empty0 = JNull then JArr [] else on_empty0) in
      if resp_status_code response = 204 \<or> resp_content response = []
           \<or> strip (resp_text response) = []
      then Inr (on_empty, [])
      else (case json_loads env (resp_text response) of
              Inr v \<Rightarrow> Inr (v, [])
            | Inl e \<Rightarrow>
                if is_ValueError e then
                  (let ct = (case resp_headers response ''content-type'' of
                               None \<Rightarrow> ''unknown'' | Some c \<Rightarrow> c);
                       body_snippet = (if resp_text response \<noteq> []
                                       then take 500 (resp_text response)
                                       else ''<no body>'')
                   in Inr (on_empty,
                       [St_error [Lit ''Risposta non-JSON dall API. - Status: '',
                                  Num (resp_status_code response),
                                  Lit '' - Content-Type: '', Str ct,
                                  Lit '' - Body (snippet): '', Str body_snippet]]))
                else Inl e))"

subsection \<open>Session operations\<close>

text \<open>
  Each operation returns \<open>Inr (value, calls)\<close>, the value handed to the caller and the
  display calls made, or \<open>Inl e\<close> when exception \<open>e\<close> leaves the function.
  The handler \<^verbatim>\<open>except requests.exceptions.RequestException as e\<close> is \<open>except_request\<close>.
\<close>

definition except_request ::
  "piece list \<Rightarrow> json \<Rightarrow> exn \<Rightarrow> exn + (json \<times> ui_call list)" where
  "except_request msg dflt e =
     (if is_RequestException e then Inr (dflt, [St_error (msg @ [Exc e])]) else Inl e)"

definition sessions_url :: "env \<Rightarrow> string \<Rightarrow> string \<Rightarrow> string" where
  "sessions_url env app_name user_id =
     BASE_URL env @ ''/apps/'' @ app_name @ ''/users/'' @ user_id @ ''/sessions''"

definition list_sessions :: "env \<Rightarrow> string \<Rightarrow> string \<Rightarrow> exn + (json \<times> ui_call list)" where
  "list_sessions env app_name user_id =
     (let endpoint = sessions_url env app_name user_id;
          handler = except_request
            [Lit ''Error listing sessions for user '', Str user_id,
             Lit '' in app '', Str app_name, Lit '': ''] (JArr [])
      in case requests env \<lparr>req_method = GET, req_url = endpoint, req_json = None\<rparr> of
           Raised e \<Rightarrow> handler e
         | Returned resp \<Rightarrow>
             (case raise_for_status resp of
                Some e \<Rightarrow> handler e
              | None \<Rightarrow>
                  (case parse_json_or_empty env resp (JArr []) of
                     Inl e \<Rightarrow> handler e
                   | Inr (data, ui) \<Rightarrow>
                       if is_dict data \<and> dict_has (items data) ''sessions''
                       then Inr (if truthy (dict_get (items data) ''sessions'' JNull)
                                 then dict_get (items data) ''sessions'' JNull else JArr [], ui)
                       else Inr (if is_list data then data else JArr [], ui))))"

definition get_session ::
  "env \<Rightarrow> string \<Rightarrow> string \<Rightarrow> string \<Rightarrow> exn + (json \<times> ui_call list)" where
  "get_session env app_name user_id session_id =
     (let endpoint = sessions_url env app_name user_id @ ''/'' @ session_id;
          handler = except_request
            [Lit ''Error getting session '', Str session_id, Lit '': ''] JNull
      in case requests env \<lparr>req_method = GET, req_url = endpoint, req_json = None\<rparr> of
           Raised e \<Rightarrow> handler e
         | Returned resp \<Rightarrow>
             (case raise_for_status resp of
                Some e \<Rightarrow> handler e
              | None \<Rightarrow>
                  (case parse_json_or_empty env resp JNull of
                     Inl e \<Rightarrow> handler e
                   | Inr (data, ui) \<Rightarrow> Inr (if is_dict data then data else JNull, ui))))"

definition delete_session ::
  "env \<Rightarrow> string \<Rightarrow> string \<Rightarrow> string \<Rightarrow> exn + (bool \<times> ui_call list)" where
  "delete_session env app_name user_id session_id =
     (let endpoint = sessions_url env app_name user_id @ ''/'' @ session_id;
          handler = (\<lambda>e. if is_RequestException e
                         then Inr (False, [St_error [Lit ''Error deleting session '',
                                                     Str session_id, Lit '': '', Exc e]])
                         else Inl e)
      in case requests env \<lparr>req_method = DELETE, req_url = endpoint, req_json = None\<rparr> of
           Raised e \<Rightarrow> handler e
         | Returned resp \<Rightarrow>
             if resp_status_code resp \<in> set [200, 202, 204] then Inr (True, [])
             else (case parse_json_or_empty env resp JNull of
                     Inl e \<Rightarrow> handler e
                   | Inr (_, ui) \<Rightarrow> Inr (resp_ok resp, ui)))"

definition create_session ::
  "env \<Rightarrow> string \<Rightarrow> string \<Rightarrow> json \<Rightarrow> exn + (json \<times> ui_call list)" where
  "create_session env app_name user_id session_data =
     (let endpoint = sessions_url env app_name user_id;
          handler = except_request
            [Lit ''Error creating session for user '', Str user_id,
             Lit '' in app '', Str app_name, Lit '': ''] JNull;
          payload = (if session_data \<noteq> JNull then session_data else JObj [])
      in case requests env \<lparr>req_method = POST, req_url = endpoint, req_json = Some payload\<rparr> of
           Raised e \<Rightarrow> handler e
         | Returned resp \<Rightarrow>
             (case raise_for_status resp of
                Some e \<Rightarrow> handler e
              | None \<Rightarrow>
                  (case parse_json_or_empty env resp JNull of
                     Inl e \<Rightarrow> handler e
                   | Inr (data, ui) \<Rightarrow>
                       (let no_id = Inr (JNull, ui @ [St_warning
                              [Lit ''La risposta alla creazione sessione non contiene un campo id.'']])
                        in if is_dict data then Inr (dict_get (items data) ''id'' JNull, ui)
                           else if is_dict data \<and> dict_has (items data) ''session''
                                     \<and> is_dict (dict_get (items data) ''session'' JNull)
                           then Inr (dict_get (items (dict_get (items data) ''session'' JNull))
                                       ''id'' JNull, ui)
                           else if is_list data \<and> truthy data
                           then (case elems data of
                                   [] \<Rightarrow> no_id
                                 | maybe # rest \<Rightarrow>
                                     if is_dict maybe \<and> dict_has (items maybe) ''id''
                                     then Inr (dict_get (items maybe) ''id'' JNull, ui)
                                     else no_id)
                           else no_id))))"

subsection \<open>agent\_run\_sse\<close>

text \<open>
  The generator's trace: the values it yields and the display calls it makes, in order,
  and the exception that leaves it, if any.
\<close>

datatype sse_item = Yield json | Ui ui_call

definition emit :: "sse_item \<Rightarrow> sse_item list \<times> exn option \<Rightarrow> sse_item list \<times> exn option" where
  "emit x r = (x # fst r, snd r)"

text \<open>
  The body of \<^verbatim>\<open>for line in response.iter_lines()\<close>.  \<^verbatim>\<open>except json.JSONDecodeError\<close>
  catches that exception alone; any other exception of the decoder ends the loop.
\<close>

fun sse_loop :: "env \<Rightarrow> line list \<Rightarrow> sse_item list \<times> exn option" where
  "sse_loop env [] = ([], None)"
| "sse_loop env (Undecodable # ls) = ([], Some UnicodeDecodeError)"
| "sse_loop env (Line l # ls) =
     (if l \<noteq> [] then
        (let decoded_line = l in
         if startswith decoded_line ''data: '' then
           (case json_loads env (drop (length ''data: '') decoded_line) of
              Inr v \<Rightarrow> emit (Yield v) (sse_loop env ls)
            | Inl e \<Rightarrow>
                if e = JSONDecodeError then
                  emit (Ui (St_warning [Lit ''Could not decode JSON from stream: '',
                                        Str decoded_line]))
                    (sse_loop env ls)
                else ([], Some e))
         else sse_loop env ls)
      else sse_loop env ls)"

definition request_data :: "string \<Rightarrow> string \<Rightarrow> string \<Rightarrow> string \<Rightarrow> json" where
  "request_data app_name user_id session_id query =
     JObj [(''app_name'', JStr app_name),
           (''user_id'', JStr user_id),
           (''session_id'', JStr session_id),
           (''new_message'', JObj [(''role'', JStr ''user''),
                                   (''parts'', JArr [JObj [(''text'', JStr query)]])]),
           (''stream'', JBool True)]"

definition agent_run_sse ::
  "env \<Rightarrow> string \<Rightarrow> string \<Rightarrow> string \<Rightarrow> string \<Rightarrow> sse_item list \<times> exn option" where
  "agent_run_sse env app_name user_id session_id query =
     (let endpoint = BASE_URL env @ ''/run_sse'';
          handler = (\<lambda>e. if is_RequestException e
                         then ([Ui (St_error [Lit ''Error during agent run SSE: '', Exc e])], None)
                         else ([], Some e))
      in case requests env \<lparr>req_method = POST, req_url = endpoint,
                               req_json = Some (request_data app_name user_id session_id query)\<rparr> of
           Raised e \<Rightarrow> handler e
         | Returned response \<Rightarrow>
             (case raise_for_status response of
                Some e \<Rightarrow> handler e
              | None \<Rightarrow>
                  (let (out, x) = sse_loop env (resp_iter_lines response) in
                   case x of
                     Some e \<Rightarrow> (out @ fst (handler e), snd (handler e))
                   | None \<Rightarrow>
                       (case resp_iter_error response of
                          None \<Rightarrow> (out, None)
                        | Some e \<Rightarrow> (out @ fst (handler e), snd (handler e))))))"

subsection \<open>display\_conversation\_history\<close>

text \<open>
  The inner loop \<^verbatim>\<open>for part in parts\<close> with its accumulator \<^verbatim>\<open>text_content\<close>;
  \<^verbatim>\<open>text_content += part['text']\<close> raises \<^verbatim>\<open>TypeError\<close> when the text is not a string.
\<close>

fun concat_texts :: "json list \<Rightarrow> string \<Rightarrow> exn + string" where
  "concat_texts [] text_content = Inr text_content"
| "concat_texts (part # parts) text_content =
     (if is_dict part \<and> dict_has (items part) ''text''
           \<and> dict_get (items part) ''text'' JNull \<noteq> JNull
      then (case dict_get (items part) ''text'' JNull of
              JStr t \<Rightarrow> concat_texts parts (text_content @ t)
            | _ \<Rightarrow> Inl TypeError)
      else concat_texts parts text_content)"

text \<open>One round of \<^verbatim>\<open>for event in events\<close>: the display calls it makes, or the exception.\<close>

definition display_event :: "json \<Rightarrow> exn + ui_call list" where
  "display_event event =
     (if is_dict event then
        (let content = dict_get (items event) ''content'' (JObj []);
             author = dict_get (items event) ''author'' (JStr ''unknown'')
         in if is_dict content then
              (let parts = dict_get (items content) ''parts'' (JArr []);
                   role = dict_get (items content) ''role'' author
               in case iterate parts of
                    Inl e \<Rightarrow> Inl e
                  | Inr ps \<Rightarrow>
                      (case concat_texts ps [] of
                         Inl e \<Rightarrow> Inl e
                       | Inr text_content \<Rightarrow>
                           if strip text_content \<noteq> [] then
                             (if role = JStr ''user'' \<or> author = JStr ''user''
                              then Inr [St_chat_message ''user'', St_write (JStr text_content)]
                              else Inr [St_chat_message ''assistant'',
                                        St_write (JStr text_content)])
                           else Inr []))
            else Inr [])
      else Inr [])"

text \<open>
  The state of one Streamlit run: the four entries of \<^verbatim>\<open>st.session_state\<close> and the
  calls made on the display surface so far.
\<close>

record app_state =
  st_session_id :: json
  st_sessions :: json
  st_refresh_sessions :: bool
  st_user_name :: string
  st_screen :: "ui_call list"

fun display_events :: "json list \<Rightarrow> app_state \<Rightarrow> app_state \<times> exn option" where
  "display_events [] st = (st, None)"
| "display_events (event # events) st =
     (case display_event event of
        Inl e \<Rightarrow> (st, Some e)
      | Inr calls \<Rightarrow> display_events events (st\<lparr>st_screen := st_screen st @ calls\<rparr>))"

definition display_conversation_history ::
  "(string \<times> json) list \<Rightarrow> app_state \<Rightarrow> app_state \<times> exn option" where
  "display_conversation_history session_details st =
     (let events = dict_get session_details ''events'' (JArr []) in
      if \<not> truthy events
      then (st\<lparr>st_screen := st_screen st @
                [St_info [Lit ''No conversation history yet. Start by sending a message!'']]\<rparr>,
            None)
      else (case iterate events of
              Inl e \<Rightarrow> (st, Some e)
            | Inr evs \<Rightarrow> display_events evs st))"

subsection \<open>main: the delete button and the streamed answer\<close>

text \<open>The branch of \<^verbatim>\<open>main\<close> taken when the delete button of a listed session is pressed.\<close>

definition delete_button ::
  "env \<Rightarrow> string \<Rightarrow> string \<Rightarrow> string \<Rightarrow> app_state \<Rightarrow> exn + app_state" where
  "delete_button env app_name user_id sid st =
     (case delete_session env app_name user_id sid of
        Inl e \<Rightarrow> Inl e
      | Inr (deleted, ui) \<Rightarrow>
          if deleted then
            (let st1 = st\<lparr>st_screen := st_screen st @ ui @ [St_success [Lit ''Session deleted!'']]\<rparr>;
                 st2 = (if st_session_id st1 = JStr sid then st1\<lparr>st_session_id := JNull\<rparr> else st1)
             in Inr (st2\<lparr>st_refresh_sessions := True\<rparr>))
          else Inr (st\<lparr>st_screen := st_screen st @ ui\<rparr>))"

text \<open>
  The loop of \<^verbatim>\<open>main\<close> that drains \<^verbatim>\<open>agent_run_sse\<close> into \<^verbatim>\<open>responses\<close>:
  \<open>append_parts\<close> is \<^verbatim>\<open>for part in event['content']['parts']\<close>, \<open>event_parts\<close> the
  guard \<^verbatim>\<open>event and 'content' in event and 'parts' in event['content']\<close> followed by the
  lookup of the parts.
\<close>

fun append_parts :: "json list \<Rightarrow> json list \<Rightarrow> exn + json list" where
  "append_parts [] responses = Inr responses"
| "append_parts (part # parts) responses =
     (case contains part ''text'' of
        Inl e \<Rightarrow> Inl e
      | Inr False \<Rightarrow> append_parts parts responses
      | Inr True \<Rightarrow>
          (case getitem part ''text'' of
             Inl e \<Rightarrow> Inl e
           | Inr t \<Rightarrow> append_parts parts (responses @ [t])))"

definition event_parts :: "json \<Rightarrow> exn + json list option" where
  "event_parts event =
     (if \<not> truthy event then Inr None
      else case contains event ''content'' of
             Inl e \<Rightarrow> Inl e
           | Inr False \<Rightarrow> Inr None
           | Inr True \<Rightarrow>
               (case getitem event ''content'' of
                  Inl e \<Rightarrow> Inl e
                | Inr content \<Rightarrow>
                    (case contains content ''parts'' of
                       Inl e \<Rightarrow> Inl e
                     | Inr False \<Rightarrow> Inr None
                     | Inr True \<Rightarrow>
                         (case getitem content ''parts'' of
                            Inl e \<Rightarrow> Inl e
                          | Inr parts \<Rightarrow>
                              (case iterate parts of
                                 Inl e \<Rightarrow> Inl e
                               | Inr ps \<Rightarrow> Inr (Some ps))))))"

text \<open>
  The consumer runs over the generator's trace: a yielded event is processed, a display
  call of the generator lands on the screen.
\<close>

fun collect_responses ::
  "sse_item list \<Rightarrow> json list \<Rightarrow> ui_call list \<Rightarrow> exn + (json list \<times> ui_call list)" where
  "collect_responses [] responses ui = Inr (responses, ui)"
| "collect_responses (Ui c # rest) responses ui = collect_responses rest responses (ui @ [c])"
| "collect_responses (Yield event # rest) responses ui =
     (case event_parts event of
        Inl e \<Rightarrow> Inl e
      | Inr None \<Rightarrow> collect_responses rest responses ui
      | Inr (Some ps) \<Rightarrow>
          (case append_parts ps responses of
             Inl e \<Rightarrow> Inl e
           | Inr responses' \<Rightarrow> collect_responses rest responses' ui))"

text \<open>
  The chat branch of \<^verbatim>\<open>main\<close> once the user has typed \<^verbatim>\<open>user_message\<close>: the display
  calls made, or the exception that leaves \<^verbatim>\<open>main\<close>.
\<close>

definition main_send ::
  "env \<Rightarrow> string \<Rightarrow> string \<Rightarrow> string \<Rightarrow> string \<Rightarrow> exn + ui_call list" where
  "main_send env app_name user_id sid user_message =
     (let ui0 = [St_chat_message ''user'', St_write (JStr user_message),
                 St_chat_message ''assistant''];
          (trace, x) = agent_run_sse env app_name user_id sid user_message
      in case collect_responses trace [] ui0 of
           Inl e \<Rightarrow> Inl e
         | Inr (responses, ui) \<Rightarrow>
             (case x of
                Some e \<Rightarrow> Inl e
              | None \<Rightarrow>
                  if responses \<noteq> []
                  then Inr (ui @ map St_write responses)
                  else Inr (ui @ [St_error [Lit ''No response received from the agent.'']])))"

subsection \<open>\_format\_timestamp\<close>

text \<open>
  The standard library behind \<^verbatim>\<open>_format_timestamp\<close>.  A \<^verbatim>\<open>datetime\<close> is read only through
  \<^verbatim>\<open>strftime('%d/%m %H:%M')\<close>, so it carries the five calendar fields.
  \<^verbatim>\<open>datetime.fromtimestamp(ts)\<close> rounds to microseconds (half to even), shifts by the
  local offset from UTC, here a fixed number of seconds with no daylight saving, and
  converts the day count to a proleptic Gregorian date; it raises when the year leaves
  1..9999, and also when the instant one day earlier, which it probes to detect a
  repeated hour, falls before year 1.
  \<^verbatim>\<open>datetime.fromisoformat\<close> is taken as it is: \<open>None\<close> when it raises.
\<close>

record datetime =
  dt_year :: int
  dt_month :: int
  dt_day :: int
  dt_hour :: int
  dt_minute :: int

record clock =
  utc_offset :: int
  fromisoformat :: "string \<Rightarrow> datetime option"

definition round_half_even :: "real \<Rightarrow> int" where
  "round_half_even x =
     (let f = \<lfloor>x\<rfloor>; d = x - of_int f in
      if d < 1 / 2 then f
      else if 1 / 2 < d then f + 1
      else if even f then f else f + 1)"

definition civil_from_days :: "int \<Rightarrow> int \<times> int \<times> int" where
  "civil_from_days days =
     (let z = days + 719468;
          era = z div 146097;
          doe = z mod 146097;
          yoe = (doe - doe div 1460 + doe div 36524 - doe div 146096) div 365;
          y = yoe + era * 400;
          doy = doe - (365 * yoe + yoe div 4 - yoe div 100);
          mp = (5 * doy + 2) div 153;
          d = doy - (153 * mp + 2) div 5 + 1;
          m = (if mp < 10 then mp + 3 else mp - 9)
      in (if m \<le> 2 then y + 1 else y, m, d))"

definition fromtimestamp :: "clock \<Rightarrow> real \<Rightarrow> datetime option" where
  "fromtimestamp clk ts =
     (let us = round_half_even (ts * 1000000);
          secs = us div 1000000 + utc_offset clk;
          days = secs div 86400;
          sod = secs mod 86400;
          (y, m, d) = civil_from_days days;
          probe_year = fst (civil_from_days (days - 1))
      in if y < 1 \<or> 9999 < y \<or> probe_year < 1 then None
         else Some \<lparr>dt_year = y, dt_month = m, dt_day = d,
                     dt_hour = sod div 3600, dt_minute = (sod mod 3600) div 60\<rparr>)"

definition digit :: "int \<Rightarrow> char" where
  "digit n = char_of (48 + nat n)"

definition two_digits :: "int \<Rightarrow> string" where
  "two_digits n = [digit (n div 10 mod 10), digit (n mod 10)]"

text \<open>\<^verbatim>\<open>dt.strftime('%d/%m %H:%M')\<close>.\<close>

definition strftime :: "datetime \<Rightarrow> string" where
  "strftime dt = two_digits (dt_day dt) @ ''/'' @ two_digits (dt_month dt) @ '' ''
                   @ two_digits (dt_hour dt) @ '':'' @ two_digits (dt_minute dt)"

text \<open>\<^verbatim>\<open>ts.replace("Z", "+00:00")\<close>.\<close>

definition replace_Z :: "string \<Rightarrow> string" where
  "replace_Z s = concat (map (\<lambda>c. if c = CHR ''Z'' then ''+00:00'' else [c]) s)"

text \<open>
  \<^verbatim>\<open>isinstance(ts, (int, float))\<close> with the number read: \<^verbatim>\<open>bool\<close> is a subclass of
  \<^verbatim>\<open>int\<close> in Python.
\<close>

fun number :: "json \<Rightarrow> real option" where
  "number (JInt i) = Some (of_int i)"
| "number (JFloat r) = Some r"
| "number (JBool b) = Some (if b then 1 else 0)"
| "number v = None"

definition format_timestamp :: "clock \<Rightarrow> json \<Rightarrow> string" where
  "format_timestamp clk ts =
     (case number ts of
        Some t \<Rightarrow>
          (let t' = (if t > 1000000000000 then t / 1000 else t) in
           case fromtimestamp clk t' of
             Some dt \<Rightarrow> strftime dt
           | None \<Rightarrow> ''Unknown'')
      | None \<Rightarrow>
          (case ts of
             JStr str \<Rightarrow>
               (let s = replace_Z str in
                case fromisoformat clk s of
                  Some dt \<Rightarrow> strftime dt
                | None \<Rightarrow> ''Unknown'')
           | _ \<Rightarrow> ''Unknown''))"

section \<open>The Agent Engine front end (app\_agentEngine.py)\<close>

text \<open>
  The remote application returned by \<^verbatim>\<open>agent_engines.get\<close>: each method either raises or
  returns a value; \<^verbatim>\<open>stream_query\<close> hands out events and may raise after the last one.
  \<open>str_other\<close> is Python's \<^verbatim>\<open>str()\<close> on values that are not strings.
\<close>

record remote_app =
  app_create_session :: "string \<Rightarrow> json outcome"
  app_list_sessions :: "string \<Rightarrow> json outcome"
  app_get_session :: "string \<Rightarrow> string \<Rightarrow> json outcome"
  app_delete_session :: "string \<Rightarrow> string \<Rightarrow> unit outcome"
  app_stream_query :: "string \<Rightarrow> string \<Rightarrow> string \<Rightarrow> json list \<times> exn option"

record engine =
  agent_engines_get :: "string \<Rightarrow> remote_app outcome"
  str_other :: "json \<Rightarrow> string"

definition py_str :: "engine \<Rightarrow> json \<Rightarrow> string" where
  "py_str eng v = (case v of JStr s \<Rightarrow> s | _ \<Rightarrow> str_other eng v)"

definition format_timestamp_ae :: "clock \<Rightarrow> json \<Rightarrow> string" where
  "format_timestamp_ae clk ts =
     (case number ts of
        Some t \<Rightarrow>
          (let t' = (if t > 1000000000000 then t / 1000 else t) in
           case fromtimestamp clk t' of
             Some dt \<Rightarrow> strftime dt
           | None \<Rightarrow> ''Sconosciuto'')
      | None \<Rightarrow>
          (case ts of
             JStr str \<Rightarrow>
               (let s = replace_Z str in
                case fromisoformat clk s of
                  Some dt \<Rightarrow> strftime dt
                | None \<Rightarrow> ''Sconosciuto'')
           | _ \<Rightarrow> ''Sconosciuto''))"

text \<open>
  Every operation wraps its body in \<^verbatim>\<open>try: ... except Exception as e\<close>, so it returns
  the value and the display calls; no exception leaves it.
\<close>

definition create_new_session :: "engine \<Rightarrow> string \<Rightarrow> string \<Rightarrow> json \<times> ui_call list" where
  "create_new_session eng resource_id user_id =
     (let handler = (\<lambda>e. (JNull, [St_error [Lit ''Errore nella creazione della sessione: '',
                                              Exc e]]))
      in case agent_engines_get eng resource_id of
           Raised e \<Rightarrow> handler e
         | Returned remote_app \<Rightarrow>
             (case app_create_session remote_app user_id of
                Raised e \<Rightarrow> handler e
              | Returned remote_session \<Rightarrow>
                  if is_str remote_session then (remote_session, [])
                  else if is_dict remote_session
                  then (dict_get (items remote_session) ''id'' JNull, [])
                  else (JNull, [])))"

definition get_sessions_list :: "engine \<Rightarrow> string \<Rightarrow> string \<Rightarrow> json \<times> ui_call list" where
  "get_sessions_list eng resource_id user_id =
     (let handler = (\<lambda>e. (JArr [], [St_error [Lit ''Errore nel recupero delle sessioni: '',
                                               Exc e]]))
      in case agent_engines_get eng resource_id of
           Raised e \<Rightarrow> handler e
         | Returned remote_app \<Rightarrow>
             (case app_list_sessions remote_app user_id of
                Raised e \<Rightarrow> handler e
              | Returned sessions \<Rightarrow>
                  if is_dict sessions \<and> dict_has (items sessions) ''sessions''
                  then (dict_get (items sessions) ''sessions'' JNull, [])
                  else if is_list sessions then (sessions, [])
                  else (JArr [], [])))"

definition get_session_details ::
  "engine \<Rightarrow> string \<Rightarrow> string \<Rightarrow> string \<Rightarrow> json \<times> ui_call list" where
  "get_session_details eng resource_id user_id sid =
     (let handler = (\<lambda>e. (JNull,
                           [St_error [Lit ''Errore nel recupero dei dettagli della sessione: '',
                                      Exc e]]))
      in case agent_engines_get eng resource_id of
           Raised e \<Rightarrow> handler e
         | Returned remote_app \<Rightarrow>
             (case app_get_session remote_app user_id sid of
                Raised e \<Rightarrow> handler e
              | Returned session \<Rightarrow>
                  if is_dict session then (session, []) else (JNull, [])))"

definition delete_session_by_id ::
  "engine \<Rightarrow> string \<Rightarrow> string \<Rightarrow> string \<Rightarrow> bool \<times> ui_call list" where
  "delete_session_by_id eng resource_id user_id sid =
     (let handler = (\<lambda>e. (False, [St_error [Lit ''Errore nell eliminazione della sessione: '',
                                              Exc e]]))
      in case agent_engines_get eng resource_id of
           Raised e \<Rightarrow> handler e
         | Returned remote_app \<Rightarrow>
             (case app_delete_session remote_app user_id sid of
                Raised e \<Rightarrow> handler e
              | Returned u \<Rightarrow> (True, [])))"

text \<open>The loops of \<^verbatim>\<open>send_message_to_agent\<close>: over the parts of one event, over the events.\<close>

fun send_parts :: "engine \<Rightarrow> json list \<Rightarrow> string list \<Rightarrow> string list" where
  "send_parts eng [] responses = responses"
| "send_parts eng (part # parts) responses =
     (if is_dict part \<and> dict_has (items part) ''text'' then
        (let text = dict_get (items part) ''text'' JNull in
         if truthy text \<and> strip (py_str eng text) \<noteq> []
         then send_parts eng parts (responses @ [py_str eng text])
         else send_parts eng parts responses)
      else send_parts eng parts responses)"

fun send_events :: "engine \<Rightarrow> json list \<Rightarrow> string list \<Rightarrow> exn + string list" where
  "send_events eng [] responses = Inr responses"
| "send_events eng (event # events) responses =
     (if is_dict event then
        (let content = dict_get (items event) ''content'' (JObj []) in
         if is_dict content then
           (let parts = dict_get (items content) ''parts'' (JArr []) in
            case iterate parts of
              Inl e \<Rightarrow> Inl e
            | Inr ps \<Rightarrow> send_events eng events (send_parts eng ps responses))
         else send_events eng events responses)
      else send_events eng events responses)"

definition send_message_to_agent ::
  "engine \<Rightarrow> string \<Rightarrow> string \<Rightarrow> string \<Rightarrow> string \<Rightarrow> string list \<times> ui_call list" where
  "send_message_to_agent eng resource_id user_id sid message =
     (let handler = (\<lambda>e. ([], [St_error [Lit ''Errore durante l invio del messaggio: '',
                                           Exc e]]))
      in case agent_engines_get eng resource_id of
           Raised e \<Rightarrow> handler e
         | Returned remote_app \<Rightarrow>
             (let (events, x) = app_stream_query remote_app user_id sid message in
              case send_events eng events [] of
                Inl e \<Rightarrow> handler e
              | Inr responses \<Rightarrow>
                  (case x of
                     Some e \<Rightarrow> handler e
                   | None \<Rightarrow> (responses, []))))"

fun concat_texts_ae :: "engine \<Rightarrow> json list \<Rightarrow> string \<Rightarrow> string" where
  "concat_texts_ae eng [] text_content = text_content"
| "concat_texts_ae eng (part # parts) text_content =
     (if is_dict part \<and> dict_has (items part) ''text''
           \<and> dict_get (items part) ''text'' JNull \<noteq> JNull
      then concat_texts_ae eng parts (text_content @ py_str eng (dict_get (items part) ''text'' JNull))
      else concat_texts_ae eng parts text_content)"

definition display_event_ae :: "engine \<Rightarrow> json \<Rightarrow> exn + ui_call list" where
  "display_event_ae eng event =
     (if is_dict event then
        (let content = dict_get (items event) ''content'' (JObj []);
             author = dict_get (items event) ''author'' (JStr ''unknown'')
         in if is_dict content then
              (let parts = dict_get (items content) ''parts'' (JArr []);
                   role = dict_get (items content) ''role'' author
               in case iterate parts of
                    Inl e \<Rightarrow> Inl e
                  | Inr ps \<Rightarrow>
                      (let text_content = concat_texts_ae eng ps [] in
                       if strip text_content \<noteq> [] then
                         (if role = JStr ''user'' \<or> author = JStr ''user''
                          then Inr [St_chat_message ''user'', St_write (JStr text_content)]
                          else Inr [St_chat_message ''assistant'',
                                    St_write (JStr text_content)])
                       else Inr []))
            else Inr [])
      else Inr [])"

fun display_events_ae :: "engine \<Rightarrow> json list \<Rightarrow> app_state \<Rightarrow> app_state \<times> exn option" where
  "display_events_ae eng [] st = (st, None)"
| "display_events_ae eng (event # events) st =
     (case display_event_ae eng event of
        Inl e \<Rightarrow> (st, Some e)
      | Inr calls \<Rightarrow> display_events_ae eng events (st\<lparr>st_screen := st_screen st @ calls\<rparr>))"

definition display_conversation_history_ae ::
  "engine \<Rightarrow> (string \<times> json) list \<Rightarrow> app_state \<Rightarrow> app_state \<times> exn option" where
  "display_conversation_history_ae eng session_details st =
     (let events = dict_get session_details ''events'' (JArr []) in
      if \<not> truthy events
      then (st\<lparr>st_screen := st_screen st @
                [St_info [Lit ''Nessuna conversazione al momento. Invia un messaggio per iniziare!'']]\<rparr>,
            None)
      else (case iterate events of
              Inl e \<Rightarrow> (st, Some e)
            | Inr evs \<Rightarrow> display_events_ae eng evs st))"

definition delete_button_ae ::
  "engine \<Rightarrow> string \<Rightarrow> string \<Rightarrow> string \<Rightarrow> app_state \<Rightarrow> app_state" where
  "delete_button_ae eng resource_id user_id sid st =
     (case delete_session_by_id eng resource_id user_id sid of
        (deleted, ui) \<Rightarrow>
          if deleted then
            (let st1 = st\<lparr>st_screen := st_screen st @ ui @ [St_success [Lit ''Sessione eliminata!'']]\<rparr>;
                 st2 = (if st_session_id st1 = JStr sid then st1\<lparr>st_session_id := JNull\<rparr> else st1)
             in st2\<lparr>st_refresh_sessions := True\<rparr>)
          else st\<lparr>st_screen := st_screen st @ ui\<rparr>)"

section \<open>The reconstructor in the words of the specification\<close>

text \<open>
  The specification's \<^verbatim>\<open>reconstruct\<close>: the text of a Part is its \<^verbatim>\<open>text\<close> field, and
  nothing when the field is missing or null; the text of a Message is the concatenation
  over the parts of the event's content; the role is the content's declared role if
  present, else the event's author, else \<^verbatim>\<open>unknown\<close>; a Message is emitted only if its
  trimmed text is not empty.
\<close>

definition spec_part_text :: "json \<Rightarrow> string" where
  "spec_part_text part =
     (case map_of (items part) ''text'' of Some (JStr t) \<Rightarrow> t | _ \<Rightarrow> [])"

definition spec_message_text :: "json \<Rightarrow> string" where
  "spec_message_text event =
     concat (map spec_part_text
       (elems (dict_get (items (dict_get (items event) ''content'' (JObj []))) ''parts'' (JArr []))))"

definition spec_message_role :: "json \<Rightarrow> json" where
  "spec_message_role event =
     (case map_of (items (dict_get (items event) ''content'' (JObj []))) ''role'' of
        Some r \<Rightarrow> r
      | None \<Rightarrow> (case map_of (items event) ''author'' of
                   Some a \<Rightarrow> a
                 | None \<Rightarrow> JStr ''unknown''))"

definition spec_reconstruct :: "json list \<Rightarrow> (json \<times> string) list" where
  "spec_reconstruct events =
     map (\<lambda>e. (spec_message_role e, spec_message_text e))
       (filter (\<lambda>e. strip (spec_message_text e) \<noteq> []) events)"

text \<open>
  Events as the data model types them: the parts of the content form a list, and the
  \<^verbatim>\<open>text\<close> of a part, when present, is a string or null.
\<close>

definition typed_part :: "json \<Rightarrow> bool" where
  "typed_part part =
     (case map_of (items part) ''text'' of
        None \<Rightarrow> True | Some JNull \<Rightarrow> True | Some (JStr t) \<Rightarrow> True | Some v \<Rightarrow> False)"

definition typed_event :: "json \<Rightarrow> bool" where
  "typed_event event =
     (let parts = dict_get (items (dict_get (items event) ''content'' (JObj []))) ''parts'' (JArr [])
      in is_list parts \<and> list_all typed_part (elems parts))"

text \<open>
  What an observer of the display sees of a Message: the speaker of its chat bubble and
  its text.  The speaker is the user when the content declares the role \<^verbatim>\<open>user\<close> or the
  event's author is \<^verbatim>\<open>user\<close>, and the assistant otherwise.  A text counts when one of its
  characters is not white space.
\<close>

definition speaker :: "json \<Rightarrow> string" where
  "speaker event =
     (if map_of (items (dict_get (items event) ''content'' (JObj []))) ''role''
           = Some (JStr ''user'')
         \<or> map_of (items event) ''author'' = Some (JStr ''user'')
      then ''user'' else ''assistant'')"

definition displayed_messages :: "json list \<Rightarrow> (string \<times> string) list" where
  "displayed_messages events =
     map (\<lambda>e. (speaker e, spec_message_text e))
       (filter (\<lambda>e. list_ex (\<lambda>c. \<not> isspace c) (spec_message_text e)) events)"

definition chat :: "string \<times> string \<Rightarrow> ui_call list" where
  "chat m = [St_chat_message (fst m), St_write (JStr (snd m))]"

section \<open>Concrete inputs\<close>

text \<open>
  \<^verbatim>\<open>iter_lines()\<close> over a complete body hands out \<^verbatim>\<open>body.splitlines()\<close>: the body is cut
  at line feed, carriage return, or carriage return followed by line feed.
\<close>

fun splitlines_from :: "string \<Rightarrow> string \<Rightarrow> string list" where
  "splitlines_from cur [] = (if cur = [] then [] else [cur])"
| "splitlines_from cur (c # cs) =
     (if c = CHR 0x0D \<and> cs \<noteq> [] \<and> hd cs = CHR 0x0A then cur # splitlines_from [] (tl cs)
      else if c = CHR 0x0A \<or> c = CHR 0x0D then cur # splitlines_from [] cs
      else splitlines_from (cur @ [c]) cs)"

definition splitlines :: "string \<Rightarrow> string list" where
  "splitlines body = splitlines_from [] body"

text \<open>A response with the given status and body, received whole.\<close>

definition http_response :: "int \<Rightarrow> string \<Rightarrow> response" where
  "http_response status body =
     \<lparr>resp_status_code = status,
      resp_headers = [''content-type'' \<mapsto> ''application/json''],
      resp_content = body, resp_text = body,
      resp_iter_lines = map Line (splitlines body), resp_iter_error = None\<rparr>"

text \<open>
  A backend that answers every request with the same outcome, and a JSON decoder given
  by the table of the texts it decodes (it raises \<open>JSONDecodeError\<close> on every other
  text).
\<close>

definition table_decoder :: "(string \<times> json) list \<Rightarrow> string \<Rightarrow> exn + json" where
  "table_decoder decoded s =
     (case map_of decoded s of Some v \<Rightarrow> Inr v | None \<Rightarrow> Inl JSONDecodeError)"

definition local_env :: "response outcome \<Rightarrow> (string \<times> json) list \<Rightarrow> env" where
  "local_env out decoded =
     \<lparr>BASE_URL = ''http://127.0.0.1:8000'', requests = (\<lambda>req. out),
      json_loads = table_decoder decoded\<rparr>"

text \<open>
  The same backend with a decoder that raises the given exception on the given text
  and reads every other text from the table, and a body of a thousand opening brackets,
  on which \<^verbatim>\<open>json.loads\<close> raises \<^verbatim>\<open>RecursionError\<close>.
\<close>

definition raising_env ::
  "response outcome \<Rightarrow> (string \<times> json) list \<Rightarrow> string \<Rightarrow> exn \<Rightarrow> env" where
  "raising_env out decoded body e =
     \<lparr>BASE_URL = ''http://127.0.0.1:8000'', requests = (\<lambda>req. out),
      json_loads = (\<lambda>s. if s = body then Inl e else table_decoder decoded s)\<rparr>"


text \<open>The session state \<^verbatim>\<open>main\<close> sets up on a first run, before anything is displayed.\<close>

definition fresh_state :: app_state where
  "fresh_state = \<lparr>st_session_id = JNull, st_sessions = JArr [], st_refresh_sessions = True,
                  st_user_name = ''test_user'', st_screen = []\<rparr>"

text \<open>A user event with text \<^verbatim>\<open>hi\<close> followed by an agent event with empty text.\<close>

definition user_hi_agent_blank :: "json list" where
  "user_hi_agent_blank =
     [JObj [(''author'', JStr ''user''),
            (''content'', JObj [(''parts'', JArr [JObj [(''text'', JStr ''hi'')]])])],
      JObj [(''author'', JStr ''agent''),
            (''content'', JObj [(''parts'', JArr [JObj [(''text'', JStr [])]])])]]"

text \<open>
  Four events: the user's \<^verbatim>\<open>hi\<close>, an agent event with empty text, an agent event whose
  text is three spaces, and an agent event with declared role \<^verbatim>\<open>model\<close> whose parts are
  a text, a part without text, a null text and another text.
\<close>

definition mixed_events :: "json list" where
  "mixed_events =
     [JObj [(''author'', JStr ''user''),
            (''content'', JObj [(''parts'', JArr [JObj [(''text'', JStr ''hi'')]])])],
      JObj [(''author'', JStr ''agent''),
            (''content'', JObj [(''parts'', JArr [JObj [(''text'', JStr [])]])])],
      JObj [(''author'', JStr ''agent''),
            (''content'', JObj [(''parts'', JArr [JObj [(''text'', JStr ''   '')]])])],
      JObj [(''author'', JStr ''agent''),
            (''content'', JObj [(''role'', JStr ''model''),
                                (''parts'', JArr [JObj [(''text'', JStr '' a'')],
                                                  JObj [(''other'', JInt 1)],
                                                  JObj [(''text'', JNull)],
                                                  JObj [(''text'', JStr ''b '')]])])]]"

text \<open>
  An event written by the user whose content declares the role \<^verbatim>\<open>model\<close>, and an event
  whose parts are null.
\<close>

definition model_role_user_author :: json where
  "model_role_user_author =
     JObj [(''author'', JStr ''user''),
           (''content'', JObj [(''role'', JStr ''model''),
                               (''parts'', JArr [JObj [(''text'', JStr ''a'')]])])]"

definition null_parts :: json where
  "null_parts = JObj [(''author'', JStr ''agent''), (''content'', JObj [(''parts'', JNull)])]"

text \<open>
  An Agent Engine whose \<^verbatim>\<open>agent_engines.get\<close> has the given outcome, and a remote
  application whose calls all succeed and whose stream hands out the given events.
\<close>

definition engine_with :: "remote_app outcome \<Rightarrow> engine" where
  "engine_with out =
     \<lparr>agent_engines_get = (\<lambda>resource_id. out),
      str_other = (\<lambda>v. if v = JNull then ''None'' else ''<value>'')\<rparr>"

definition answering_app :: "json list \<Rightarrow> remote_app" where
  "answering_app events =
     \<lparr>app_create_session = (\<lambda>user_id. Returned (JObj [(''id'', JStr ''s1'')])),
      app_list_sessions = (\<lambda>user_id. Returned (JArr [JObj [(''id'', JStr ''s1'')]])),
      app_get_session = (\<lambda>user_id sid. Returned (JObj [(''id'', JStr sid)])),
      app_delete_session = (\<lambda>user_id sid. Returned ()),
      app_stream_query = (\<lambda>user_id sid message. (events, None))\<rparr>"

text \<open>
  The stream reader in the words of the specification, one line at a time: a line
  prefixed \<^verbatim>\<open>data: \<close> is stripped of the prefix and decoded, and gives the decoded value
  or, when decoding fails, a warning; any other line gives nothing.
\<close>

definition spec_frame :: "env \<Rightarrow> string \<Rightarrow> sse_item list" where
  "spec_frame env l =
     (if startswith l ''data: '' then
        (case json_loads env (drop (length ''data: '') l) of
           Inr v \<Rightarrow> [Yield v]
         | Inl e \<Rightarrow> [Ui (St_warning [Lit ''Could not decode JSON from stream: '', Str l])])
      else [])"

text \<open>
  A line is readable when, if it is prefixed \<^verbatim>\<open>data: \<close>, its payload decodes or the
  decoder raises \<open>JSONDecodeError\<close>; a line that is not readable carries a payload on
  which the decoder raises the exception \<open>payload_error\<close>.
\<close>

definition readable :: "env \<Rightarrow> string \<Rightarrow> bool" where
  "readable env l =
     (if startswith l ''data: '' then
        (case json_loads env (drop (length ''data: '') l) of
           Inr v \<Rightarrow> True
         | Inl e \<Rightarrow> e = JSONDecodeError)
      else True)"


text \<open>An event whose content has one part with the given text.\<close>

definition text_event :: "string \<Rightarrow> json" where
  "text_event t = JObj [(''content'', JObj [(''parts'', JArr [JObj [(''text'', JStr t)]])])]"



text \<open>A stream of one frame whose only text is three spaces.\<close>

definition blank_body :: string where
  \<open>blank_body = ''data: {"content":{"parts":[{"text":"   "}]}}'' @ [CHR 0x0A]\<close>

definition blank_decoded :: "(string \<times> json) list" where
  \<open>blank_decoded = [(''{"content":{"parts":[{"text":"   "}]}}'', text_event ''   '')]\<close>

text \<open>A platform whose local time is UTC and whose ISO parser accepts nothing.\<close>

definition utc_clock :: clock where
  "utc_clock = \<lparr>utc_offset = 0, fromisoformat = (\<lambda>s. None)\<rparr>"

text \<open>
  The exception with which a request fails, if it does: the one the call raises, or the
  \<^verbatim>\<open>HTTPError\<close> that \<^verbatim>\<open>raise_for_status()\<close> raises on its response.
\<close>

definition transport_failure :: "response outcome \<Rightarrow> exn option" where
  "transport_failure out =
     (case out of Raised e \<Rightarrow> Some e | Returned resp \<Rightarrow> raise_for_status resp)"




text \<open>A remote application whose \<^verbatim>\<open>create_session\<close> returns the given value.\<close>

definition creating_app :: "json \<Rightarrow> remote_app" where
  "creating_app created =
     (answering_app [])\<lparr>app_create_session := (\<lambda>user_id. Returned created)\<rparr>"

section \<open>Properties\<close>

lemmas local_input_defs = local_env_def raising_env_def table_decoder_def http_response_def
lemmas value_defs = dict_get_def dict_has_def strip_def isspace_def
lemmas response_defs = parse_json_or_empty_def resp_ok_def raise_for_status_def

subsection \<open>White space\<close>

text \<open>\<^verbatim>\<open>s.strip()\<close> is empty exactly when every character of \<open>s\<close> is white space.\<close>

lemma strip_empty_iff: "strip s = [] \<longleftrightarrow> (\<forall>c \<in> set s. isspace c)"
proof
  assume "strip s = []"
  then have a: "\<forall>c \<in> set (dropWhile isspace s). isspace c"
    by (simp add: strip_def)
  have "dropWhile isspace s = []"
  proof (rule ccontr)
    assume n: "dropWhile isspace s \<noteq> []"
    then have "\<not> isspace (hd (dropWhile isspace s))" by (rule hd_dropWhile)
    moreover from n have "hd (dropWhile isspace s) \<in> set (dropWhile isspace s)"
      by (rule hd_in_set)
    ultimately show False using a by blast
  qed
  then show "\<forall>c \<in> set s. isspace c" by simp
next
  assume "\<forall>c \<in> set s. isspace c"
  then have "dropWhile isspace s = []" by simp
  then show "strip s = []" by (simp only: strip_def rev.simps dropWhile.simps)
qed

lemma strip_nonempty_iff: "strip s \<noteq> [] \<longleftrightarrow> list_ex (\<lambda>c. \<not> isspace c) s"
  by (simp add: strip_empty_iff list_ex_iff)



subsection \<open>Session creation\<close>

text \<open>
  C1.  \<^verbatim>\<open>create_session\<close> is to take the id out of \<^verbatim>\<open>{"session": {"id": "s1"}}\<close> and to
  answer \<^verbatim>\<open>{}\<close> with no id and a warning.  The code does neither: its first test,
  \<^verbatim>\<open>isinstance(data, dict)\<close>, returns \<^verbatim>\<open>data.get("id")\<close> for every dictionary, so the
  branch for the nested shape below it is never reached.  On a 200 response with body
  \<^verbatim>\<open>{"session": {"id": "s1"}}\<close> the function returns \<^verbatim>\<open>None\<close>, and on \<^verbatim>\<open>{}\<close> it
  returns \<^verbatim>\<open>None\<close> without any display call.  \<^verbatim>\<open>create_new_session\<close> of the Agent
  Engine front end has no branch for the nested shape either.
\<close>

theorem create_session_nested_id_lost:
  \<open>create_session
     (local_env (Returned (http_response 200 ''{"session": {"id": "s1"}}''))
        [(''{"session": {"id": "s1"}}'', JObj [(''session'', JObj [(''id'', JStr ''s1'')])])])
     ''greeting_agent'' ''test_user'' JNull = Inr (JNull, [])
   \<and> create_session (local_env (Returned (http_response 200 ''{}'')) [(''{}'', JObj [])])
     ''greeting_agent'' ''test_user'' JNull = Inr (JNull, [])
   \<and> create_new_session
       (engine_with (Returned (creating_app (JObj [(''session'', JObj [(''id'', JStr ''s1'')])]))))
       ''engine'' ''test_user'' = (JNull, [])\<close>
  by (simp add: create_session_def local_input_defs value_defs response_defs
                create_new_session_def engine_with_def creating_app_def answering_app_def)

subsection \<open>Session deletion\<close>






subsection \<open>The response decoder\<close>








subsection \<open>The conversation reconstructor\<close>

lemma concat_texts_typed:
  "list_all typed_part ps \<Longrightarrow>
     concat_texts ps acc = Inr (acc @ concat (map spec_part_text ps))"
proof (induction ps arbitrary: acc)
  case Nil
  then show ?case by simp
next
  case (Cons p ps)
  then show ?case
    by (cases p) (auto simp: typed_part_def spec_part_text_def dict_has_def dict_get_def
                       split: option.splits json.splits)
qed

lemma concat_texts_ae_typed:
  "list_all typed_part ps \<Longrightarrow>
     concat_texts_ae eng ps acc = acc @ concat (map spec_part_text ps)"
proof (induction ps arbitrary: acc)
  case Nil
  then show ?case by simp
next
  case (Cons p ps)
  then show ?case
    by (cases p) (auto simp: typed_part_def spec_part_text_def dict_has_def dict_get_def
                       py_str_def split: option.splits json.splits)
qed

lemma is_list_elems: "is_list v \<Longrightarrow> iterate v = Inr (elems v)"
  by (cases v) simp_all

lemma not_dict_items: "\<not> is_dict v \<Longrightarrow> items v = []"
  by (cases v) simp_all

text \<open>
  The test \<^verbatim>\<open>role == 'user' or author == 'user'\<close> of the code, with \<^verbatim>\<open>role\<close> falling
  back on the author and the author on \<^verbatim>\<open>unknown\<close>, decides the same as \<open>speaker\<close>.
\<close>

lemma user_test_speaker:
  "(if dict_get (items (dict_get (items e) ''content'' (JObj []))) ''role''
          (dict_get (items e) ''author'' (JStr ''unknown'')) = JStr ''user''
       \<or> dict_get (items e) ''author'' (JStr ''unknown'') = JStr ''user''
    then ''user'' else ''assistant'') = speaker e"
  by (auto simp: speaker_def dict_get_def split: option.splits)

lemma display_event_typed:
  assumes "typed_event e"
  shows "display_event e
           = Inr (if list_ex (\<lambda>c. \<not> isspace c) (spec_message_text e)
                  then chat (speaker e, spec_message_text e) else [])"
proof (cases "is_dict e")
  case False
  then have "items e = []" by (rule not_dict_items)
  then have "spec_message_text e = []"
    by (simp add: spec_message_text_def dict_get_def)
  with False show ?thesis by (simp add: display_event_def)
next
  case True
  show ?thesis
  proof (cases "is_dict (dict_get (items e) ''content'' (JObj []))")
    case False
    then have "items (dict_get (items e) ''content'' (JObj [])) = []" by (rule not_dict_items)
    then have "spec_message_text e = []"
      by (simp add: spec_message_text_def dict_get_def)
    with True False show ?thesis by (simp add: display_event_def)
  next
    case c: True
    from assms
    have l: "is_list (dict_get (items (dict_get (items e) ''content'' (JObj []))) ''parts'' (JArr []))"
      and t: "list_all typed_part
                (elems (dict_get (items (dict_get (items e) ''content'' (JObj []))) ''parts'' (JArr [])))"
      by (simp_all add: typed_event_def Let_def)
    have "display_event e
            = Inr (if strip (spec_message_text e) \<noteq> [] then
                     [St_chat_message
                        (if dict_get (items (dict_get (items e) ''content'' (JObj []))) ''role''
                              (dict_get (items e) ''author'' (JStr ''unknown'')) = JStr ''user''
                           \<or> dict_get (items e) ''author'' (JStr ''unknown'') = JStr ''user''
                         then ''user'' else ''assistant''),
                      St_write (JStr (spec_message_text e))]
                   else [])"
      using True c
      by (simp add: display_event_def Let_def is_list_elems [OF l] concat_texts_typed [OF t]
                    spec_message_text_def)
    then show ?thesis
      by (simp only: user_test_speaker strip_nonempty_iff chat_def fst_conv snd_conv)
  qed
qed

lemma display_event_ae_typed:
  assumes "typed_event e"
  shows "display_event_ae eng e
           = Inr (if list_ex (\<lambda>c. \<not> isspace c) (spec_message_text e)
                  then chat (speaker e, spec_message_text e) else [])"
proof (cases "is_dict e")
  case False
  then have "items e = []" by (rule not_dict_items)
  then have "spec_message_text e = []"
    by (simp add: spec_message_text_def dict_get_def)
  with False show ?thesis by (simp add: display_event_ae_def)
next
  case True
  show ?thesis
  proof (cases "is_dict (dict_get (items e) ''content'' (JObj []))")
    case False
    then have "items (dict_get (items e) ''content'' (JObj [])) = []" by (rule not_dict_items)
    then have "spec_message_text e = []"
      by (simp add: spec_message_text_def dict_get_def)
    with True False show ?thesis by (simp add: display_event_ae_def)
  next
    case c: True
    from assms
    have l: "is_list (dict_get (items (dict_get (items e) ''content'' (JObj []))) ''parts'' (JArr []))"
      and t: "list_all typed_part
                (elems (dict_get (items (dict_get (items e) ''content'' (JObj []))) ''parts'' (JArr [])))"
      by (simp_all add: typed_event_def Let_def)
    have "display_event_ae eng e
            = Inr (if strip (spec_message_text e) \<noteq> [] then
                     [St_chat_message
                        (if dict_get (items (dict_get (items e) ''content'' (JObj []))) ''role''
                              (dict_get (items e) ''author'' (JStr ''unknown'')) = JStr ''user''
                           \<or> dict_get (items e) ''author'' (JStr ''unknown'') = JStr ''user''
                         then ''user'' else ''assistant''),
                      St_write (JStr (spec_message_text e))]
                   else [])"
      using True c
      by (simp add: display_event_ae_def Let_def is_list_elems [OF l]
                    concat_texts_ae_typed [OF t] spec_message_text_def)
    then show ?thesis
      by (simp only: user_test_speaker strip_nonempty_iff chat_def fst_conv snd_conv)
  qed
qed

lemma display_events_typed:
  "list_all typed_event evs \<Longrightarrow>
     display_events evs st
       = (st\<lparr>st_screen := st_screen st @ concat (map chat (displayed_messages evs))\<rparr>, None)"
proof (induction evs arbitrary: st)
  case Nil
  then show ?case by (simp add: displayed_messages_def)
next
  case (Cons e evs)
  then show ?case by (simp add: display_event_typed displayed_messages_def)
qed

lemma display_events_ae_typed:
  "list_all typed_event evs \<Longrightarrow>
     display_events_ae eng evs st
       = (st\<lparr>st_screen := st_screen st @ concat (map chat (displayed_messages evs))\<rparr>, None)"
proof (induction evs arbitrary: st)
  case Nil
  then show ?case by (simp add: displayed_messages_def)
next
  case (Cons e evs)
  then show ?case by (simp add: display_event_ae_typed displayed_messages_def)
qed

text \<open>
  C6, as stated: for every event sequence a Message carries the content's declared role
  if present, else the author.  An event written by the user whose content declares the
  role \<^verbatim>\<open>model\<close> is, in the words of the specification, a Message of role \<^verbatim>\<open>model\<close>;
  the code displays it as the user's.  And not every event sequence is reconstructed: on
  an event whose parts are null the function raises \<^verbatim>\<open>TypeError\<close>.
\<close>

theorem display_conversation_history_role_counterexample:
  "spec_reconstruct [model_role_user_author] = [(JStr ''model'', ''a'')]
   \<and> display_conversation_history [(''events'', JArr [model_role_user_author])] fresh_state
       = (fresh_state\<lparr>st_screen := [St_chat_message ''user'', St_write (JStr ''a'')]\<rparr>, None)
   \<and> display_conversation_history [(''events'', JArr [null_parts])] fresh_state
       = (fresh_state, Some TypeError)"
  by (simp add: spec_reconstruct_def spec_message_role_def spec_message_text_def
                spec_part_text_def model_role_user_author_def null_parts_def fresh_state_def
                display_conversation_history_def display_event_def value_defs)

text \<open>
  C6, amended.  On a log of typed events (the parts of a content form a list, the
  \<^verbatim>\<open>text\<close> of a part is a string or null when present) both front ends display, in the
  order of the events, one chat bubble for each event whose concatenated text has a
  character that is not white space.  The bubble holds the concatenation of the \<^verbatim>\<open>text\<close>
  fields of the parts, those missing or null skipped, untrimmed; it is the user's when
  the content's declared role or the event's author is \<^verbatim>\<open>user\<close> and the assistant's
  otherwise.  An empty log displays the notice that there is no history.  No exception is
  raised.
\<close>

theorem display_conversation_history_reconstructs:
  assumes "dict_get session_details ''events'' (JArr []) = JArr events"
    and "list_all typed_event events"
  shows "display_conversation_history session_details st
           = (st\<lparr>st_screen := st_screen st
                   @ (if events = []
                      then [St_info [Lit ''No conversation history yet. Start by sending a message!'']]
                      else concat (map chat (displayed_messages events)))\<rparr>,
              None)
         \<and> display_conversation_history_ae eng session_details st
           = (st\<lparr>st_screen := st_screen st
                   @ (if events = []
                      then [St_info [Lit ''Nessuna conversazione al momento. Invia un messaggio per iniziare!'']]
                      else concat (map chat (displayed_messages events)))\<rparr>,
              None)"
  using assms
  by (simp add: display_conversation_history_def display_conversation_history_ae_def
                display_events_typed display_events_ae_typed)

theorem display_conversation_history_reconstructs_witness:
  "display_conversation_history [(''events'', JArr user_hi_agent_blank)] fresh_state
     = (fresh_state\<lparr>st_screen := [St_chat_message ''user'', St_write (JStr ''hi'')]\<rparr>, None)
   \<and> display_conversation_history_ae (engine_with (Returned (answering_app [])))
         [(''events'', JArr user_hi_agent_blank)] fresh_state
     = (fresh_state\<lparr>st_screen := [St_chat_message ''user'', St_write (JStr ''hi'')]\<rparr>, None)
   \<and> display_conversation_history [(''events'', JArr mixed_events)] fresh_state
     = (fresh_state\<lparr>st_screen := [St_chat_message ''user'', St_write (JStr ''hi''),
                                   St_chat_message ''assistant'', St_write (JStr '' ab '')]\<rparr>,
        None)
   \<and> display_conversation_history [] fresh_state
     = (fresh_state\<lparr>st_screen :=
          [St_info [Lit ''No conversation history yet. Start by sending a message!'']]\<rparr>, None)"
proof -
  have t1: "list_all typed_event user_hi_agent_blank"
    by (simp add: user_hi_agent_blank_def typed_event_def typed_part_def dict_get_def)
  have t2: "list_all typed_event mixed_events"
    by (simp add: mixed_events_def typed_event_def typed_part_def dict_get_def)
  have m1: "concat (map chat (displayed_messages user_hi_agent_blank))
              = [St_chat_message ''user'', St_write (JStr ''hi'')]"
    by (simp add: user_hi_agent_blank_def displayed_messages_def chat_def speaker_def
                  spec_message_text_def spec_part_text_def dict_get_def isspace_def)
  have m2: "concat (map chat (displayed_messages mixed_events))
              = [St_chat_message ''user'', St_write (JStr ''hi''),
                 St_chat_message ''assistant'', St_write (JStr '' ab '')]"
    by (simp add: mixed_events_def displayed_messages_def chat_def speaker_def
                  spec_message_text_def spec_part_text_def dict_get_def isspace_def)
  have n1: "user_hi_agent_blank \<noteq> []" by (simp add: user_hi_agent_blank_def)
  have n2: "mixed_events \<noteq> []" by (simp add: mixed_events_def)
  have d: "dict_get [(''events'', JArr evs)] ''events'' (JArr []) = JArr evs" for evs
    by (simp add: dict_get_def)
  have d0: "dict_get [] ''events'' (JArr []) = JArr []"
    by (simp add: dict_get_def)
  have e0: "list_all typed_event []" by simp
  from display_conversation_history_reconstructs
         [OF d t1, of fresh_state "engine_with (Returned (answering_app []))"]
       display_conversation_history_reconstructs
         [OF d t2, of fresh_state "engine_with (Returned (answering_app []))"]
       display_conversation_history_reconstructs
         [OF d0 e0, of fresh_state "engine_with (Returned (answering_app []))"]
  show ?thesis
    by (simp add: m1 m2 n1 n2 fresh_state_def)
qed

lemma display_events_appends:
  "display_events evs st
     = (st\<lparr>st_screen := st_screen st @ st_screen (fst (display_events evs fresh_state))\<rparr>,
        snd (display_events evs fresh_state))"
proof (induction evs arbitrary: st)
  case Nil
  then show ?case by (simp add: fresh_state_def)
next
  case (Cons e evs)
  show ?case
  proof (cases "display_event e")
    case (Inl x)
    then show ?thesis by (simp add: fresh_state_def)
  next
    case (Inr calls)
    have a: "display_events evs (st\<lparr>st_screen := st_screen st @ calls\<rparr>)
               = (st\<lparr>st_screen := (st_screen st @ calls)
                        @ st_screen (fst (display_events evs fresh_state))\<rparr>,
                  snd (display_events evs fresh_state))"
      using Cons.IH [of "st\<lparr>st_screen := st_screen st @ calls\<rparr>"] by simp
    have b: "display_events evs (fresh_state\<lparr>st_screen := st_screen fresh_state @ calls\<rparr>)
               = (fresh_state\<lparr>st_screen := calls
                        @ st_screen (fst (display_events evs fresh_state))\<rparr>,
                  snd (display_events evs fresh_state))"
      using Cons.IH [of "fresh_state\<lparr>st_screen := st_screen fresh_state @ calls\<rparr>"]
      by (simp add: fresh_state_def)
    show ?thesis using Inr a b by simp
  qed
qed

lemma display_events_ae_appends:
  "display_events_ae eng evs st
     = (st\<lparr>st_screen := st_screen st
             @ st_screen (fst (display_events_ae eng evs fresh_state))\<rparr>,
        snd (display_events_ae eng evs fresh_state))"
proof (induction evs arbitrary: st)
  case Nil
  then show ?case by (simp add: fresh_state_def)
next
  case (Cons e evs)
  show ?case
  proof (cases "display_event_ae eng e")
    case (Inl x)
    then show ?thesis by (simp add: fresh_state_def)
  next
    case (Inr calls)
    have a: "display_events_ae eng evs (st\<lparr>st_screen := st_screen st @ calls\<rparr>)
               = (st\<lparr>st_screen := (st_screen st @ calls)
                        @ st_screen (fst (display_events_ae eng evs fresh_state))\<rparr>,
                  snd (display_events_ae eng evs fresh_state))"
      using Cons.IH [of "st\<lparr>st_screen := st_screen st @ calls\<rparr>"] by simp
    have b: "display_events_ae eng evs
               (fresh_state\<lparr>st_screen := st_screen fresh_state @ calls\<rparr>)
               = (fresh_state\<lparr>st_screen := calls
                        @ st_screen (fst (display_events_ae eng evs fresh_state))\<rparr>,
                  snd (display_events_ae eng evs fresh_state))"
      using Cons.IH [of "fresh_state\<lparr>st_screen := st_screen fresh_state @ calls\<rparr>"]
      by (simp add: fresh_state_def)
    show ?thesis using Inr a b by simp
  qed
qed

lemma display_conversation_history_appends:
  "display_conversation_history session_details st
     = (st\<lparr>st_screen := st_screen st
             @ st_screen (fst (display_conversation_history session_details fresh_state))\<rparr>,
        snd (display_conversation_history session_details fresh_state))"
proof (cases "truthy (dict_get session_details ''events'' (JArr []))")
  case False
  then show ?thesis
    by (simp add: display_conversation_history_def fresh_state_def)
next
  case True
  show ?thesis
  proof (cases "iterate (dict_get session_details ''events'' (JArr []))")
    case (Inl x)
    with True show ?thesis
      by (simp add: display_conversation_history_def fresh_state_def)
  next
    case (Inr evs)
    with True
    have "display_conversation_history session_details s = display_events evs s" for s
      by (simp add: display_conversation_history_def)
    then show ?thesis
      using display_events_appends [of evs st] by simp
  qed
qed

lemma display_conversation_history_ae_appends:
  "display_conversation_history_ae eng session_details st
     = (st\<lparr>st_screen := st_screen st
             @ st_screen (fst (display_conversation_history_ae eng session_details fresh_state))\<rparr>,
        snd (display_conversation_history_ae eng session_details fresh_state))"
proof (cases "truthy (dict_get session_details ''events'' (JArr []))")
  case False
  then show ?thesis
    by (simp add: display_conversation_history_ae_def fresh_state_def)
next
  case True
  show ?thesis
  proof (cases "iterate (dict_get session_details ''events'' (JArr []))")
    case (Inl x)
    with True show ?thesis
      by (simp add: display_conversation_history_ae_def fresh_state_def)
  next
    case (Inr evs)
    with True
    have "display_conversation_history_ae eng session_details s = display_events_ae eng evs s"
      for s
      by (simp add: display_conversation_history_ae_def)
    then show ?thesis
      using display_events_ae_appends [of eng evs st] by simp
  qed
qed

text \<open>
  C10.  With the session state and the display threaded through explicitly, a run of
  \<^verbatim>\<open>display_conversation_history\<close> from any state leaves the four session entries as
  they were and appends to the display the calls that the same session details produce
  from the fresh state, ending the same way.  What it displays is therefore a function
  of the event log alone: two runs on the same log display the same, whatever the state
  in between.
\<close>

theorem display_conversation_history_pure:
  "display_conversation_history session_details st
     = (st\<lparr>st_screen := st_screen st
             @ st_screen (fst (display_conversation_history session_details fresh_state))\<rparr>,
        snd (display_conversation_history session_details fresh_state))
   \<and> display_conversation_history_ae eng session_details st
     = (st\<lparr>st_screen := st_screen st
             @ st_screen (fst (display_conversation_history_ae eng session_details fresh_state))\<rparr>,
        snd (display_conversation_history_ae eng session_details fresh_state))"
  using display_conversation_history_appends [of session_details st]
        display_conversation_history_ae_appends [of eng session_details st]
  by (intro conjI)

subsection \<open>The active session\<close>

text \<open>
  C9.  When the delete succeeds, the delete button of a listed session clears the active
  session if it is the one deleted and leaves it as it was otherwise, in both front ends.
\<close>

theorem delete_button_transition:
  "(delete_session env app_name user_id sid = Inr (True, ui)
      \<longrightarrow> (\<exists>st'. delete_button env app_name user_id sid st = Inr st'
             \<and> (st_session_id st = JStr sid \<longrightarrow> st_session_id st' = JNull)
             \<and> (st_session_id st \<noteq> JStr sid \<longrightarrow> st_session_id st' = st_session_id st)))
   \<and> (delete_session_by_id eng resource_id user_id sid = (True, ui)
      \<longrightarrow> (st_session_id st = JStr sid
             \<longrightarrow> st_session_id (delete_button_ae eng resource_id user_id sid st) = JNull)
          \<and> (st_session_id st \<noteq> JStr sid
             \<longrightarrow> st_session_id (delete_button_ae eng resource_id user_id sid st)
                   = st_session_id st))"
  by (simp add: delete_button_def delete_button_ae_def Let_def)

theorem delete_button_transition_witness:
  "(\<exists>st'. delete_button (local_env (Returned (http_response 204 [])) [])
             ''greeting_agent'' ''test_user'' ''s1''
             (fresh_state\<lparr>st_session_id := JStr ''s1''\<rparr>) = Inr st'
           \<and> st_session_id st' = JNull)
   \<and> (\<exists>st'. delete_button (local_env (Returned (http_response 204 [])) [])
             ''greeting_agent'' ''test_user'' ''s2''
             (fresh_state\<lparr>st_session_id := JStr ''s1''\<rparr>) = Inr st'
           \<and> st_session_id st' = JStr ''s1'')
   \<and> st_session_id (delete_button_ae (engine_with (Returned (answering_app [])))
             ''engine'' ''test_user'' ''s1''
             (fresh_state\<lparr>st_session_id := JStr ''s1''\<rparr>)) = JNull
   \<and> st_session_id (delete_button_ae (engine_with (Returned (answering_app [])))
             ''engine'' ''test_user'' ''s2''
             (fresh_state\<lparr>st_session_id := JStr ''s1''\<rparr>)) = JStr ''s1''"
  using delete_button_transition [of "local_env (Returned (http_response 204 [])) []"
          "''greeting_agent''" "''test_user''" "''s1''" "[]"
          "fresh_state\<lparr>st_session_id := JStr ''s1''\<rparr>"
          "engine_with (Returned (answering_app []))" "''engine''"]
        delete_button_transition [of "local_env (Returned (http_response 204 [])) []"
          "''greeting_agent''" "''test_user''" "''s2''" "[]"
          "fresh_state\<lparr>st_session_id := JStr ''s1''\<rparr>"
          "engine_with (Returned (answering_app []))" "''engine''"]
  by (simp add: delete_session_def delete_session_by_id_def local_input_defs engine_with_def
                answering_app_def fresh_state_def)


subsection \<open>The stream reader\<close>

lemma sse_loop_readable_prefix:
  "list_all (readable env) ls \<Longrightarrow>
     sse_loop env (map Line ls @ rest)
       = (concat (map (spec_frame env) ls) @ fst (sse_loop env rest), snd (sse_loop env rest))"
proof (induction ls)
  case Nil
  then show ?case by simp
next
  case (Cons l ls)
  then show ?case
    by (cases "l = []")
       (auto simp: spec_frame_def readable_def emit_def startswith_def split: sum.splits)
qed

lemma sse_loop_frames:
  "list_all (readable env) ls \<Longrightarrow>
     sse_loop env (map Line ls) = (concat (map (spec_frame env) ls), None)"
  using sse_loop_readable_prefix [of env ls "[]"] by simp


lemma agent_run_sse_readable:
  assumes "requests env \<lparr>req_method = POST, req_url = BASE_URL env @ ''/run_sse'',
                          req_json = Some (request_data app_name user_id sid query)\<rparr>
             = Returned response"
    and "raise_for_status response = None"
    and "resp_iter_lines response = map Line ls"
    and "list_all (readable env) ls"
    and "resp_iter_error response = None"
  shows "agent_run_sse env app_name user_id sid query = (concat (map (spec_frame env) ls), None)"
  using assms by (simp add: agent_run_sse_def sse_loop_frames)







subsection \<open>Streamed answers\<close>

lemma frames_blank_body:
  "concat (map (spec_frame (local_env out blank_decoded)) (splitlines blank_body))
     = [Yield (text_event ''   '')]"
  by (simp add: splitlines_def blank_body_def spec_frame_def startswith_def blank_decoded_def
                local_env_def table_decoder_def)

lemma readable_blank_body:
  "list_all (readable (local_env out blank_decoded)) (splitlines blank_body)"
  by (simp add: splitlines_def blank_body_def readable_def startswith_def blank_decoded_def
                local_env_def table_decoder_def)

lemma agent_run_sse_blank:
  "agent_run_sse (local_env (Returned (http_response 200 blank_body)) blank_decoded)
      ''greeting_agent'' ''test_user'' ''s1'' ''hello'' = ([Yield (text_event ''   '')], None)"
proof -
  have 1: "requests (local_env (Returned (http_response 200 blank_body)) blank_decoded)
             \<lparr>req_method = POST,
                req_url = BASE_URL (local_env (Returned (http_response 200 blank_body))
                                     blank_decoded) @ ''/run_sse'',
                req_json = Some (request_data ''greeting_agent'' ''test_user'' ''s1'' ''hello'')\<rparr>
             = Returned (http_response 200 blank_body)"
    by (simp add: local_env_def)
  have 2: "raise_for_status (http_response 200 blank_body) = None"
    by (simp add: raise_for_status_def http_response_def)
  have 3: "resp_iter_lines (http_response 200 blank_body) = map Line (splitlines blank_body)"
    by (simp add: http_response_def)
  have 4: "resp_iter_error (http_response 200 blank_body) = None"
    by (simp add: http_response_def)
  show ?thesis
    using agent_run_sse_readable [OF 1 2 3 readable_blank_body 4]
    by (simp only: frames_blank_body)
qed

lemma event_parts_text_event:
  "event_parts (text_event t) = Inr (Some [JObj [(''text'', JStr t)]])"
  by (simp add: event_parts_def text_event_def dict_has_def)

lemma strip_blank: "strip ''   '' = []"
  by (simp add: strip_def isspace_def)

text \<open>
  C8.  A streamed text becomes a displayed response only if it is not empty after
  trimming.  The Agent Engine front end keeps to this (\<open>send_message_to_agent_nonblank\<close>
  below); the loop in \<^verbatim>\<open>main\<close> of \<^verbatim>\<open>app_local.py\<close> appends every \<^verbatim>\<open>text\<close> it finds.
  On a stream whose one event carries the text of three spaces, it writes the three
  spaces as the assistant's response.
\<close>

theorem main_send_displays_blank_text:
  "main_send (local_env (Returned (http_response 200 blank_body)) blank_decoded)
      ''greeting_agent'' ''test_user'' ''s1'' ''hello''
     = Inr [St_chat_message ''user'', St_write (JStr ''hello''), St_chat_message ''assistant'',
            St_write (JStr ''   '')]
   \<and> strip ''   '' = []"
  by (simp add: main_send_def agent_run_sse_blank event_parts_text_event dict_has_def strip_blank)

lemma send_parts_nonblank:
  "\<forall>r \<in> set responses. strip r \<noteq> [] \<Longrightarrow>
     \<forall>r \<in> set (send_parts eng parts responses). strip r \<noteq> []"
proof (induction parts arbitrary: responses)
  case Nil
  then show ?case by simp
next
  case (Cons p ps)
  show ?case
  proof (cases "is_dict p \<and> dict_has (items p) ''text''
                 \<and> truthy (dict_get (items p) ''text'' JNull)
                 \<and> strip (py_str eng (dict_get (items p) ''text'' JNull)) \<noteq> []")
    case True
    then have "\<forall>r \<in> set (responses @ [py_str eng (dict_get (items p) ''text'' JNull)]).
                 strip r \<noteq> []"
      using Cons.prems by simp
    then have "\<forall>r \<in> set (send_parts eng ps
                            (responses @ [py_str eng (dict_get (items p) ''text'' JNull)])).
                 strip r \<noteq> []"
      by (rule Cons.IH)
    with True show ?thesis by (simp add: Let_def)
  next
    case False
    have "\<forall>r \<in> set (send_parts eng ps responses). strip r \<noteq> []"
      using Cons.prems by (rule Cons.IH)
    with False show ?thesis by (auto simp: Let_def)
  qed
qed

lemma send_events_nonblank:
  "\<forall>r \<in> set responses. strip r \<noteq> [] \<Longrightarrow> send_events eng events responses = Inr rs \<Longrightarrow>
     \<forall>r \<in> set rs. strip r \<noteq> []"
proof (induction events arbitrary: responses)
  case Nil
  then show ?case by simp
next
  case (Cons e events)
  show ?case
  proof (cases "is_dict e \<and> is_dict (dict_get (items e) ''content'' (JObj []))")
    case False
    with Cons.prems have "send_events eng events responses = Inr rs"
      by (auto simp: Let_def split: if_splits)
    with Cons.prems(1) show ?thesis by (rule Cons.IH)
  next
    case True
    then obtain ps
      where r: "send_events eng events (send_parts eng ps responses) = Inr rs"
      using Cons.prems(2) by (auto simp: Let_def split: sum.splits)
    have "\<forall>r \<in> set (send_parts eng ps responses). strip r \<noteq> []"
      using Cons.prems(1) by (rule send_parts_nonblank)
    then show ?thesis using r by (rule Cons.IH)
  qed
qed

text \<open>
  The sibling path: every response that \<^verbatim>\<open>send_message_to_agent\<close> returns is non-empty
  after trimming.
\<close>

lemma send_message_to_agent_nonblank:
  "\<forall>r \<in> set (fst (send_message_to_agent eng resource_id user_id sid message)).
     strip r \<noteq> []"
proof (cases "agent_engines_get eng resource_id")
  case (Raised e)
  then show ?thesis by (simp add: send_message_to_agent_def)
next
  case (Returned app)
  obtain events x where q: "app_stream_query app user_id sid message = (events, x)"
    by (cases "app_stream_query app user_id sid message")
  show ?thesis
  proof (cases "send_events eng events []")
    case (Inl e)
    with Returned q show ?thesis by (simp add: send_message_to_agent_def)
  next
    case (Inr rs)
    have "\<forall>r \<in> set rs. strip r \<noteq> []"
      using send_events_nonblank [of "[]" eng events rs] Inr by simp
    with Returned q Inr show ?thesis
      by (cases x) (simp_all add: send_message_to_agent_def)
  qed
qed


subsection \<open>Timestamps\<close>

text \<open>
  C3, as stated: for every \<open>t > 10\<^sup>1\<^sup>2\<close> the display of \<open>t\<close> equals the display of
  \<open>t / 1000\<close>.  At \<open>t = 2 \<cdot> 10\<^sup>1\<^sup>5\<close> the quotient \<open>2 \<cdot> 10\<^sup>1\<^sup>2\<close> is itself above the threshold
  and is divided again: \<open>t\<close> is read as \<open>2 \<cdot> 10\<^sup>1\<^sup>2\<close> seconds, a year past 9999, for which
  \<^verbatim>\<open>fromtimestamp\<close> raises and the sentinel is returned, while \<open>t / 1000\<close> is read as
  \<open>2 \<cdot> 10\<^sup>9\<close> seconds, the 18th of May 2033.  Both numbers and both quotients are exact in
  double precision.
\<close>

theorem format_timestamp_far_future_counterexample:
  "(1000000000000::real) < 2000000000000000
   \<and> format_timestamp utc_clock (JInt 2000000000000000) = ''Unknown''
   \<and> format_timestamp utc_clock (JFloat (2000000000000000 / 1000)) = ''18/05 03:33''"
  by code_simp

text \<open>
  C3, amended: a numeric timestamp \<open>t\<close> is divided by 1000 when \<open>t > 10\<^sup>1\<^sup>2\<close> (the value
  itself is compared, not its magnitude) and read as epoch seconds otherwise; so for
  \<open>10\<^sup>1\<^sup>2 < t \<le> 10\<^sup>1\<^sup>5\<close> the display of \<open>t\<close> equals the display of \<open>t / 1000\<close>, in both
  front ends.
\<close>

theorem format_timestamp_threshold:
  assumes "number ts = Some t"
  shows "format_timestamp clk ts
           = (case fromtimestamp clk (if 1000000000000 < t then t / 1000 else t) of
                Some dt \<Rightarrow> strftime dt | None \<Rightarrow> ''Unknown'')
         \<and> format_timestamp_ae clk ts
           = (case fromtimestamp clk (if 1000000000000 < t then t / 1000 else t) of
                Some dt \<Rightarrow> strftime dt | None \<Rightarrow> ''Sconosciuto'')
         \<and> (1000000000000 < t \<and> t \<le> 1000000000000000
              \<longrightarrow> format_timestamp clk ts = format_timestamp clk (JFloat (t / 1000))
                \<and> format_timestamp_ae clk ts = format_timestamp_ae clk (JFloat (t / 1000)))"
  using assms by (simp add: format_timestamp_def format_timestamp_ae_def)

theorem format_timestamp_threshold_witness:
  "format_timestamp utc_clock (JInt 1700000000000)
     = format_timestamp utc_clock (JFloat (1700000000000 / 1000))
   \<and> format_timestamp utc_clock (JInt 1700000000000) = ''14/11 22:13''"
proof -
  have n: "number (JInt 1700000000000) = Some 1700000000000" by simp
  have v: "format_timestamp utc_clock (JInt 1700000000000) = ''14/11 22:13''" by code_simp
  have r: "(1000000000000::real) < 1700000000000
             \<and> (1700000000000::real) \<le> 1000000000000000"
    by simp
  from format_timestamp_threshold [OF n, of utc_clock] r
  have "format_timestamp utc_clock (JInt 1700000000000)
          = format_timestamp utc_clock (JFloat (1700000000000 / 1000))"
    by blast
  with v show ?thesis by (intro conjI)
qed

text \<open>
  The first instant of year 1 is refused, as \<^verbatim>\<open>datetime.fromtimestamp\<close> refuses it
  (the probe one day earlier falls in year 0), and the sentinel is displayed.
\<close>

lemma format_timestamp_year_one:
  "format_timestamp utc_clock (JInt (- 62135596800)) = ''Unknown''"
  by code_simp

subsection \<open>Failures of the transport\<close>

text \<open>
  What the operations do with a failure of the transport.  In the local front end a
  \<^verbatim>\<open>RequestException\<close> raised by the request, and for list, get, create and the stream
  also a status from 400 to 599, is caught inside the operation, which returns its
  default and displays one error holding the exception.  In the Agent Engine front end
  every exception raised by \<^verbatim>\<open>agent_engines.get\<close> or by the call on the remote
  application is caught the same way.
\<close>

lemma list_sessions_failure:
  "transport_failure (requests env \<lparr>req_method = GET, req_url = sessions_url env app_name user_id,
                                     req_json = None\<rparr>) = Some e
     \<and> is_RequestException e
   \<longrightarrow> list_sessions env app_name user_id
         = Inr (JArr [], [St_error [Lit ''Error listing sessions for user '', Str user_id,
                                    Lit '' in app '', Str app_name, Lit '': '', Exc e]])"
  by (auto simp: transport_failure_def list_sessions_def except_request_def Let_def
           split: outcome.splits)

lemma get_session_failure:
  "transport_failure (requests env \<lparr>req_method = GET,
                                     req_url = sessions_url env app_name user_id @ ''/'' @ sid,
                                     req_json = None\<rparr>) = Some e
     \<and> is_RequestException e
   \<longrightarrow> get_session env app_name user_id sid
         = Inr (JNull, [St_error [Lit ''Error getting session '', Str sid, Lit '': '', Exc e]])"
  by (auto simp: transport_failure_def get_session_def except_request_def Let_def
           split: outcome.splits)

lemma create_session_failure:
  "transport_failure (requests env \<lparr>req_method = POST, req_url = sessions_url env app_name user_id,
                                     req_json = Some (if session_data \<noteq> JNull then session_data
                                                      else JObj [])\<rparr>) = Some e
     \<and> is_RequestException e
   \<longrightarrow> create_session env app_name user_id session_data
         = Inr (JNull, [St_error [Lit ''Error creating session for user '', Str user_id,
                                  Lit '' in app '', Str app_name, Lit '': '', Exc e]])"
  by (auto simp: transport_failure_def create_session_def except_request_def Let_def
           split: outcome.splits)

lemma delete_session_failure:
  "requests env \<lparr>req_method = DELETE, req_url = sessions_url env app_name user_id @ ''/'' @ sid,
                  req_json = None\<rparr> = Raised e
     \<and> is_RequestException e
   \<longrightarrow> delete_session env app_name user_id sid
         = Inr (False, [St_error [Lit ''Error deleting session '', Str sid, Lit '': '', Exc e]])"
  by (auto simp: delete_session_def Let_def)

lemma agent_run_sse_failure:
  "transport_failure (requests env \<lparr>req_method = POST, req_url = BASE_URL env @ ''/run_sse'',
                          req_json = Some (request_data app_name user_id sid query)\<rparr>) = Some e
     \<and> is_RequestException e
   \<longrightarrow> agent_run_sse env app_name user_id sid query
         = ([Ui (St_error [Lit ''Error during agent run SSE: '', Exc e])], None)"
  by (auto simp: transport_failure_def agent_run_sse_def Let_def split: outcome.splits)

lemma create_new_session_failure:
  "(agent_engines_get eng resource_id = Raised e
      \<or> (\<exists>app. agent_engines_get eng resource_id = Returned app
                \<and> app_create_session app user_id = Raised e))
   \<longrightarrow> create_new_session eng resource_id user_id
         = (JNull, [St_error [Lit ''Errore nella creazione della sessione: '', Exc e]])"
  by (auto simp: create_new_session_def)

lemma get_sessions_list_failure:
  "(agent_engines_get eng resource_id = Raised e
      \<or> (\<exists>app. agent_engines_get eng resource_id = Returned app
                \<and> app_list_sessions app user_id = Raised e))
   \<longrightarrow> get_sessions_list eng resource_id user_id
         = (JArr [], [St_error [Lit ''Errore nel recupero delle sessioni: '', Exc e]])"
  by (auto simp: get_sessions_list_def)

lemma get_session_details_failure:
  "(agent_engines_get eng resource_id = Raised e
      \<or> (\<exists>app. agent_engines_get eng resource_id = Returned app
                \<and> app_get_session app user_id sid = Raised e))
   \<longrightarrow> get_session_details eng resource_id user_id sid
         = (JNull, [St_error [Lit ''Errore nel recupero dei dettagli della sessione: '', Exc e]])"
  by (auto simp: get_session_details_def)

lemma delete_session_by_id_failure:
  "(agent_engines_get eng resource_id = Raised e
      \<or> (\<exists>app. agent_engines_get eng resource_id = Returned app
                \<and> app_delete_session app user_id sid = Raised e))
   \<longrightarrow> delete_session_by_id eng resource_id user_id sid
         = (False, [St_error [Lit ''Errore nell eliminazione della sessione: '', Exc e]])"
  by (auto simp: delete_session_by_id_def)

lemma send_message_to_agent_failure:
  "(agent_engines_get eng resource_id = Raised e
      \<or> (\<exists>app events rs. agent_engines_get eng resource_id = Returned app
                \<and> app_stream_query app user_id sid message = (events, Some e)
                \<and> send_events eng events [] = Inr rs))
   \<longrightarrow> send_message_to_agent eng resource_id user_id sid message
         = ([], [St_error [Lit ''Errore durante l invio del messaggio: '', Exc e]])"
  by (auto simp: send_message_to_agent_def)


text \<open>
  C7.  Every failure of the transport, a failing status included, is to be turned into
  the operation's default with the cause displayed.  \<^verbatim>\<open>delete_session\<close> does so when the
  request raises, and its siblings do so on a failing status: \<^verbatim>\<open>get_session\<close> on a 500
  response returns \<^verbatim>\<open>None\<close> and displays the \<^verbatim>\<open>HTTPError\<close>, and \<^verbatim>\<open>delete_session_by_id\<close>
  displays the exception of a failed delete.  But \<^verbatim>\<open>delete_session\<close> on a 500 response
  with an empty body returns false and displays nothing: the body is read for diagnosis
  and the result is dropped.
\<close>

theorem delete_session_500_silent:
  "delete_session (local_env (Returned (http_response 500 [])) [])
       ''greeting_agent'' ''test_user'' ''s1'' = Inr (False, [])
   \<and> get_session (local_env (Returned (http_response 500 [])) [])
         ''greeting_agent'' ''test_user'' ''s1''
       = Inr (JNull, [St_error [Lit ''Error getting session '', Str ''s1'', Lit '': '',
                                Exc (HTTPError 500)]])
   \<and> delete_session (local_env (Raised (ConnectionError ''refused'')) [])
         ''greeting_agent'' ''test_user'' ''s1''
       = Inr (False, [St_error [Lit ''Error deleting session '', Str ''s1'', Lit '': '',
                                Exc (ConnectionError ''refused'')]])
   \<and> delete_session_by_id (engine_with (Raised (ConnectionError ''refused'')))
         ''engine'' ''test_user'' ''s1''
       = (False, [St_error [Lit ''Errore nell eliminazione della sessione: '',
                            Exc (ConnectionError ''refused'')]])"
  by (simp add: delete_session_def get_session_def except_request_def delete_session_by_id_def
                engine_with_def local_input_defs value_defs response_defs)

end
